theory Spec2Isabelle
  imports Main "HOL-Library.Word" "HOL-Library.AList"
begin

unbundle bit_operations_syntax

section \<open>SHA-256 as computed by hashlib\<close>

text \<open>
  The program calls \<^verbatim>\<open>hashlib.sha256(b).hexdigest()\<close> on the bytes \<open>b\<close> of an encoded
  password. The library function is written out here after FIPS 180-4 on 32-bit words:
  padding, message schedule, 64 rounds per block, and the lowercase hexadecimal rendering of
  the eight state words. It is defined on every byte sequence.
\<close>

type_synonym word32 = "32 word"
type_synonym byte = "8 word"

definition rotr :: "nat \<Rightarrow> word32 \<Rightarrow> word32" where
  "rotr n x = drop_bit n x OR push_bit (32 - n) x"

definition Ch :: "word32 \<Rightarrow> word32 \<Rightarrow> word32 \<Rightarrow> word32" where
  "Ch x y z = (x AND y) XOR (NOT x AND z)"

definition Maj :: "word32 \<Rightarrow> word32 \<Rightarrow> word32 \<Rightarrow> word32" where
  "Maj x y z = (x AND y) XOR (x AND z) XOR (y AND z)"

definition Sigma0 :: "word32 \<Rightarrow> word32" where
  "Sigma0 x = rotr 2 x XOR rotr 13 x XOR rotr 22 x"

definition Sigma1 :: "word32 \<Rightarrow> word32" where
  "Sigma1 x = rotr 6 x XOR rotr 11 x XOR rotr 25 x"

definition sigma0 :: "word32 \<Rightarrow> word32" where
  "sigma0 x = rotr 7 x XOR rotr 18 x XOR drop_bit 3 x"

definition sigma1 :: "word32 \<Rightarrow> word32" where
  "sigma1 x = rotr 17 x XOR rotr 19 x XOR drop_bit 10 x"

text \<open>
  The round constants: the first 32 bits of the fractional parts of the cube roots of the
  first 64 primes, written in decimal.
\<close>

definition K256 :: "word32 list" where
  "K256 =
   [1116352408, 1899447441, 3049323471, 3921009573, 961987163, 1508970993,
    2453635748, 2870763221, 3624381080, 310598401, 607225278, 1426881987,
    1925078388, 2162078206, 2614888103, 3248222580, 3835390401, 4022224774,
    264347078, 604807628, 770255983, 1249150122, 1555081692, 1996064986,
    2554220882, 2821834349, 2952996808, 3210313671, 3336571891, 3584528711,
    113926993, 338241895, 666307205, 773529912, 1294757372, 1396182291,
    1695183700, 1986661051, 2177026350, 2456956037, 2730485921, 2820302411,
    3259730800, 3345764771, 3516065817, 3600352804, 4094571909, 275423344,
    430227734, 506948616, 659060556, 883997877, 958139571, 1322822218,
    1537002063, 1747873779, 1955562222, 2024104815, 2227730452, 2361852424,
    2428436474, 2756734187, 3204031479, 3329325298]"

type_synonym hstate = "word32 \<times> word32 \<times> word32 \<times> word32 \<times> word32 \<times> word32 \<times> word32 \<times> word32"

text \<open>
  The initial state: the first 32 bits of the fractional parts of the square roots of the
  first 8 primes.
\<close>

definition H256 :: hstate where
  "H256 =
     (1779033703, 3144134277, 1013904242, 2773480762,
      1359893119, 2600822924, 528734635, 1541459225)"

fun expand :: "nat \<Rightarrow> word32 list \<Rightarrow> word32 list" where
  "expand 0 ws = ws"
| "expand (Suc n) ws =
     expand n ((sigma1 (ws ! 1) + ws ! 6 + sigma0 (ws ! 14) + ws ! 15) # ws)"

definition schedule :: "word32 list \<Rightarrow> word32 list" where
  "schedule block = rev (expand 48 (rev block))"

fun sha_round :: "hstate \<Rightarrow> word32 \<times> word32 \<Rightarrow> hstate" where
  "sha_round (a, b, c, d, e, f, g, h) (k, w) =
     (let t1 = h + Sigma1 e + Ch e f g + k + w;
          t2 = Sigma0 a + Maj a b c
      in (t1 + t2, a, b, c, d + t1, e, f, g))"

fun add_state :: "hstate \<Rightarrow> hstate \<Rightarrow> hstate" where
  "add_state (a, b, c, d, e, f, g, h) (a', b', c', d', e', f', g', h') =
     (a + a', b + b', c + c', d + d', e + e', f + f', g + g', h + h')"

definition compress :: "hstate \<Rightarrow> word32 list \<Rightarrow> hstate" where
  "compress st block = add_state st (foldl sha_round st (zip K256 (schedule block)))"

fun bit_length :: "byte list \<Rightarrow> 64 word" where
  "bit_length [] = 0"
| "bit_length (b # bs) = bit_length bs + 8"

definition be64 :: "64 word \<Rightarrow> byte list" where
  "be64 n = map (\<lambda>i. ucast (drop_bit (8 * (7 - i)) n)) [0..<8]"

definition pad :: "byte list \<Rightarrow> byte list" where
  "pad bs = bs @ [0x80] @ replicate ((119 - length bs mod 64) mod 64) 0 @ be64 (bit_length bs)"

fun words_of :: "byte list \<Rightarrow> word32 list" where
  "words_of (a # b # c # d # bs) =
     (push_bit 24 (ucast a) OR push_bit 16 (ucast b) OR push_bit 8 (ucast c) OR ucast d) # words_of bs"
| "words_of _ = []"

fun blocks_of :: "nat \<Rightarrow> word32 list \<Rightarrow> word32 list list" where
  "blocks_of 0 ws = []"
| "blocks_of (Suc n) ws = take 16 ws # blocks_of n (drop 16 ws)"

definition sha256 :: "byte list \<Rightarrow> hstate" where
  "sha256 bs = (let ws = words_of (pad bs) in foldl compress H256 (blocks_of (length ws div 16) ws))"

definition hex_digit :: "nat \<Rightarrow> char" where
  "hex_digit n = ''0123456789abcdef'' ! n"

definition hex32 :: "word32 \<Rightarrow> string" where
  "hex32 w = map (\<lambda>i. hex_digit (unat (drop_bit (4 * (7 - i)) w AND 0xf))) [0..<8]"

fun hexdigest :: "hstate \<Rightarrow> string" where
  "hexdigest (a, b, c, d, e, f, g, h) =
     hex32 a @ hex32 b @ hex32 c @ hex32 d @ hex32 e @ hex32 f @ hex32 g @ hex32 h"

text \<open>\<^verbatim>\<open>hashlib.sha256(b).hexdigest()\<close>\<close>

definition sha256_hexdigest :: "byte list \<Rightarrow> string" where
  "sha256_hexdigest bs = hexdigest (sha256 bs)"

section \<open>Data model\<close>

text \<open>
  The three JSON documents hold a list of menu items, a list of orders and the credential
  object. Python integers are unbounded (\<open>int\<close>). The cart and the credential object are Python
  dictionaries, kept as association lists in insertion order
  (\<open>AList.update\<close> overwrites in place or appends, as item assignment on a dict does).
\<close>

record menu_item =
  mi_id :: int
  mi_name :: string
  mi_category :: string
  mi_price :: int

record order_item =
  oi_id :: int
  oi_name :: string
  oi_price :: int
  oi_qty :: int

record order =
  order_timestamp :: string
  order_buyer :: string
  order_note :: string
  order_items :: "order_item list"
  order_total :: int

type_synonym cart = "(int \<times> int) list"
type_synonym config = "(string \<times> string) list"

text \<open>
  A file on disk is absent, holds a parseable document, or holds bytes that
  \<^verbatim>\<open>json.load\<close> rejects (what a write interrupted after \<^verbatim>\<open>open(..., "w")\<close> leaves).
\<close>

datatype 'a document = Missing | Parsed 'a | Garbled

record disk =
  menu_file :: "menu_item list document"
  orders_file :: "order list document"
  config_file :: "config document"

datatype file_id = MENU_FILE | ORDERS_FILE | CONFIG_FILE

text \<open>How the environment answers a write to a file: the outcome of \<^verbatim>\<open>open\<close> and \<^verbatim>\<open>json.dump\<close>.\<close>

datatype io_outcome = Succeeds | FailsAtOpen | FailsMidWrite

type_synonym io = "file_id \<Rightarrow> io_outcome"

text \<open>
  The program reports through message boxes and uncaught exceptions; the outcomes are named
  as follows. \<open>EmptyCartError\<close>: warning "Keranjang kosong" and return.
  \<open>MissingBuyerError\<close>: info "Pemesanan dibatalkan (nama diperlukan)" and return.
  \<open>EmptyPasswordError\<close>: info "Perubahan password dibatalkan" and return.
  \<open>MismatchError\<close>: error "Password tidak cocok" and return.
  \<open>StorageError\<close>: an exception of \<^verbatim>\<open>open\<close>, \<^verbatim>\<open>json.load\<close> or \<^verbatim>\<open>json.dump\<close>.
  \<open>UnicodeEncodeError\<close>: the exception of \<^verbatim>\<open>str.encode\<close>. No function of the program
  catches either exception.
\<close>

datatype error =
  EmptyCartError | MissingBuyerError | StorageError | MismatchError | EmptyPasswordError |
  UnicodeEncodeError

text \<open>The fields of \<^verbatim>\<open>BazaarApp\<close> that are not widgets.\<close>

record app =
  menu_items :: "menu_item list"
  orders :: "order list"
  config :: config
  cart :: cart

section \<open>Passwords and their encoding\<close>

text \<open>
  A password is a Python \<^verbatim>\<open>str\<close> that the program encodes: a sequence of code points
  (integers from 0 up to, not including, 0x110000). The code points from 0xD800 to 0xDFFF are
  the surrogates; a \<^verbatim>\<open>str\<close> may hold them, and UTF-8 has no encoding for them.
\<close>

type_synonym pystr = "int list"

text \<open>A string literal of the source, in ASCII.\<close>

definition py_str :: "string \<Rightarrow> pystr" where
  "py_str s = map of_char s"

text \<open>The bytes of an ASCII literal, as \<^verbatim>\<open>b"..."\<close> writes them.\<close>

definition ascii_bytes :: "string \<Rightarrow> byte list" where
  "ascii_bytes s = map of_char s"

text \<open>The UTF-8 bytes of one code point; \<open>None\<close> where the codec refuses.\<close>

definition utf8 :: "int \<Rightarrow> byte list option" where
  "utf8 c =
     (if c < 0 \<or> 0x110000 \<le> c then None
      else if c < 0x80 then Some [of_int c]
      else if c < 0x800 then Some [of_int (0xC0 + c div 64), of_int (0x80 + c mod 64)]
      else if 0xD800 \<le> c \<and> c \<le> 0xDFFF then None
      else if c < 0x10000 then
        Some [of_int (0xE0 + c div 4096), of_int (0x80 + c div 64 mod 64), of_int (0x80 + c mod 64)]
      else
        Some [of_int (0xF0 + c div 262144), of_int (0x80 + c div 4096 mod 64),
              of_int (0x80 + c div 64 mod 64), of_int (0x80 + c mod 64)])"

text \<open>
  \<^verbatim>\<open>pw.encode()\<close>: the default codec is UTF-8 with strict error handling, which raises
  \<^verbatim>\<open>UnicodeEncodeError\<close> at the first code point it cannot encode.
\<close>

fun encode :: "pystr \<Rightarrow> error + byte list" where
  "encode [] = Inr []"
| "encode (c # cs) =
     (case utf8 c of
        None \<Rightarrow> Inl UnicodeEncodeError
      | Some bs \<Rightarrow> (case encode cs of Inl e \<Rightarrow> Inl e | Inr rest \<Rightarrow> Inr (bs @ rest)))"

text \<open>\<^verbatim>\<open>def hash_password(pw): return hashlib.sha256(pw.encode()).hexdigest()\<close>\<close>

definition hash_password :: "pystr \<Rightarrow> error + string" where
  "hash_password pw =
     (case encode pw of Inl e \<Rightarrow> Inl e | Inr bs \<Rightarrow> Inr (sha256_hexdigest bs))"

section \<open>Persistent store\<close>

text \<open>\<^verbatim>\<open>with open(F, "w") as f: json.dump(v, f)\<close> on one file.\<close>

definition write_json :: "io_outcome \<Rightarrow> 'a \<Rightarrow> 'a document \<Rightarrow> (error + unit) \<times> 'a document" where
  "write_json out v old =
     (case out of
        Succeeds \<Rightarrow> (Inr (), Parsed v)
      | FailsAtOpen \<Rightarrow> (Inl StorageError, old)
      | FailsMidWrite \<Rightarrow> (Inl StorageError, Garbled))"

text \<open>\<^verbatim>\<open>with open(F, "r") as f: return json.load(f)\<close> on one file.\<close>

definition read_json :: "'a document \<Rightarrow> error + 'a" where
  "read_json doc = (case doc of Parsed v \<Rightarrow> Inr v | Missing \<Rightarrow> Inl StorageError | Garbled \<Rightarrow> Inl StorageError)"

definition exists_file :: "'a document \<Rightarrow> bool" where
  "exists_file doc = (case doc of Missing \<Rightarrow> False | Parsed v \<Rightarrow> True | Garbled \<Rightarrow> True)"

definition load_menu :: "disk \<Rightarrow> error + menu_item list" where
  "load_menu d = read_json (menu_file d)"

definition load_orders :: "disk \<Rightarrow> error + order list" where
  "load_orders d = read_json (orders_file d)"

definition save_orders :: "io \<Rightarrow> order list \<Rightarrow> disk \<Rightarrow> (error + unit) \<times> disk" where
  "save_orders io os d =
     (case write_json (io ORDERS_FILE) os (orders_file d) of
        (r, doc) \<Rightarrow> (r, d\<lparr>orders_file := doc\<rparr>))"

definition load_config :: "disk \<Rightarrow> error + config" where
  "load_config d = read_json (config_file d)"

definition save_config :: "io \<Rightarrow> config \<Rightarrow> disk \<Rightarrow> (error + unit) \<times> disk" where
  "save_config io cfg d =
     (case write_json (io CONFIG_FILE) cfg (config_file d) of
        (r, doc) \<Rightarrow> (r, d\<lparr>config_file := doc\<rparr>))"

definition sample_menu :: "menu_item list" where
  "sample_menu =
     [\<lparr>mi_id = 1, mi_name = ''Nasi Goreng'', mi_category = ''Makanan'', mi_price = 12000\<rparr>,
      \<lparr>mi_id = 2, mi_name = ''Mie Goreng'', mi_category = ''Makanan'', mi_price = 10000\<rparr>,
      \<lparr>mi_id = 3, mi_name = ''Bakso'', mi_category = ''Makanan'', mi_price = 15000\<rparr>,
      \<lparr>mi_id = 4, mi_name = ''Es Teh Manis'', mi_category = ''Minuman'', mi_price = 5000\<rparr>,
      \<lparr>mi_id = 5, mi_name = ''Jus Jeruk'', mi_category = ''Minuman'', mi_price = 8000\<rparr>,
      \<lparr>mi_id = 6, mi_name = ''Roti Bakar'', mi_category = ''Snack'', mi_price = 7000\<rparr>]"

text \<open>The key under which the program stores and reads the digest.\<close>

definition PASSWORD_KEY :: string where
  "PASSWORD_KEY = ''admin_password_sha256''"

definition default_pw :: pystr where
  "default_pw = py_str ''admin123''"

text \<open>
  \<^verbatim>\<open>ensure_files_exist\<close>: three tests of \<^verbatim>\<open>os.path.exists\<close>, each followed by a write of
  the default; an exception ends the function. The default digest is computed by
  \<^verbatim>\<open>hashlib.sha256(default_pw.encode()).hexdigest()\<close>.
\<close>

definition ensure_files_exist :: "io \<Rightarrow> disk \<Rightarrow> (error + unit) \<times> disk" where
  "ensure_files_exist io d =
     (case (if \<not> exists_file (menu_file d)
            then (case write_json (io MENU_FILE) sample_menu (menu_file d) of
                    (r, doc) \<Rightarrow> (r, d\<lparr>menu_file := doc\<rparr>))
            else (Inr (), d)) of
        (Inl e, d1) \<Rightarrow> (Inl e, d1)
      | (Inr u, d1) \<Rightarrow>
          (case (if \<not> exists_file (orders_file d1)
                 then (case write_json (io ORDERS_FILE) [] (orders_file d1) of
                         (r, doc) \<Rightarrow> (r, d1\<lparr>orders_file := doc\<rparr>))
                 else (Inr (), d1)) of
             (Inl e, d2) \<Rightarrow> (Inl e, d2)
           | (Inr u, d2) \<Rightarrow>
               (if \<not> exists_file (config_file d2)
                then (case encode default_pw of
                        Inl e \<Rightarrow> (Inl e, d2)
                      | Inr bs \<Rightarrow>
                          (case write_json (io CONFIG_FILE)
                                  [(PASSWORD_KEY, sha256_hexdigest bs)] (config_file d2) of
                             (r, doc) \<Rightarrow> (r, d2\<lparr>config_file := doc\<rparr>)))
                else (Inr (), d2))))"

text \<open>\<^verbatim>\<open>BazaarApp.__init__\<close> without the widgets: the first load of the three documents.\<close>

definition init_app :: "io \<Rightarrow> disk \<Rightarrow> (error + app) \<times> disk" where
  "init_app io d =
     (case ensure_files_exist io d of
        (Inl e, d1) \<Rightarrow> (Inl e, d1)
      | (Inr u, d1) \<Rightarrow>
          (case load_menu d1 of
             Inl e \<Rightarrow> (Inl e, d1)
           | Inr m \<Rightarrow>
               (case load_orders d1 of
                  Inl e \<Rightarrow> (Inl e, d1)
                | Inr os \<Rightarrow>
                    (case load_config d1 of
                       Inl e \<Rightarrow> (Inl e, d1)
                     | Inr cfg \<Rightarrow>
                         (Inr \<lparr>menu_items = m, orders = os, config = cfg, cart = []\<rparr>, d1)))))"

section \<open>Order recorder\<close>

text \<open>\<^verbatim>\<open>next((x for x in self.menu_items if x["id"] == item_id), None)\<close>\<close>

definition find_item :: "menu_item list \<Rightarrow> int \<Rightarrow> menu_item option" where
  "find_item menu i = List.find (\<lambda>x. mi_id x = i) menu"

text \<open>
  The loop of \<^verbatim>\<open>place_order\<close> over \<^verbatim>\<open>self.cart.items()\<close>, with its two accumulators
  \<^verbatim>\<open>order_items\<close> and \<^verbatim>\<open>total\<close>; a line whose id is not in the menu is skipped.
\<close>

fun order_loop :: "menu_item list \<Rightarrow> cart \<Rightarrow> order_item list \<Rightarrow> int \<Rightarrow> order_item list \<times> int" where
  "order_loop menu [] acc tot = (acc, tot)"
| "order_loop menu ((i, qty) # rest) acc tot =
     (case find_item menu i of
        None \<Rightarrow> order_loop menu rest acc tot
      | Some item \<Rightarrow>
          order_loop menu rest
            (acc @ [\<lparr>oi_id = i, oi_name = mi_name item, oi_price = mi_price item, oi_qty = qty\<rparr>])
            (tot + mi_price item * qty))"

text \<open>\<^verbatim>\<open>note or ""\<close>: \<^verbatim>\<open>None\<close> and the empty string are both falsy.\<close>

definition note_or_empty :: "string option \<Rightarrow> string" where
  "note_or_empty n = (case n of None \<Rightarrow> '''' | Some s \<Rightarrow> (if s = '''' then '''' else s))"

definition make_order :: "string \<Rightarrow> string \<Rightarrow> string option \<Rightarrow> menu_item list \<Rightarrow> cart \<Rightarrow> order" where
  "make_order now buyer note menu c =
     (case order_loop menu c [] 0 of
        (its, tot) \<Rightarrow>
          \<lparr>order_timestamp = now @ ''Z'', order_buyer = buyer, order_note = note_or_empty note,
           order_items = its, order_total = tot\<rparr>)"

text \<open>
  \<^verbatim>\<open>BazaarApp.place_order\<close>. \<open>now\<close> is \<^verbatim>\<open>datetime.datetime.utcnow().isoformat()\<close>;
  \<open>buyer_in\<close> and \<open>note_in\<close> are the answers of the two \<^verbatim>\<open>askstring\<close> dialogs
  (\<open>None\<close> when the dialog is cancelled). The result carries the record that was built,
  the fields of the application and the disk afterwards.
\<close>

definition place_order ::
  "io \<Rightarrow> string \<Rightarrow> string option \<Rightarrow> string option \<Rightarrow> app \<Rightarrow> disk \<Rightarrow> (error + order) \<times> app \<times> disk" where
  "place_order io now buyer_in note_in a d =
     (if cart a = [] then (Inl EmptyCartError, a, d)
      else
        (case buyer_in of
           None \<Rightarrow> (Inl MissingBuyerError, a, d)
         | Some buyer \<Rightarrow>
             (if buyer = '''' then (Inl MissingBuyerError, a, d)
              else
                (let ord = make_order now buyer note_in (menu_items a) (cart a);
                     a1 = a\<lparr>orders := orders a @ [ord]\<rparr>
                 in (case save_orders io (orders a1) d of
                       (Inl e, d1) \<Rightarrow> (Inl e, a1, d1)
                     | (Inr u, d1) \<Rightarrow> (Inr ord, a1\<lparr>cart := []\<rparr>, d1))))))"

section \<open>Admin gate\<close>

text \<open>\<^verbatim>\<open>cfg.get(key, default)\<close>\<close>

definition dict_get :: "config \<Rightarrow> string \<Rightarrow> string \<Rightarrow> string" where
  "dict_get cfg k dflt = (case map_of cfg k of None \<Rightarrow> dflt | Some v \<Rightarrow> v)"

text \<open>
  The decision of \<^verbatim>\<open>open_admin_login\<close>: \<^verbatim>\<open>pw_hash = hash_password(pw)\<close>, then
  \<^verbatim>\<open>pw_hash == self.config.get("admin_password_sha256", "")\<close>.
\<close>

definition authenticate :: "config \<Rightarrow> pystr \<Rightarrow> error + bool" where
  "authenticate cfg pw =
     (case hash_password pw of
        Inl e \<Rightarrow> Inl e
      | Inr pw_hash \<Rightarrow> Inr (pw_hash = dict_get cfg PASSWORD_KEY ''''))"

datatype login = LoginCancelled | AccessGranted | AccessDenied

text \<open>What \<^verbatim>\<open>open_admin_panel\<close> does to the fields: it reloads the order log.\<close>

definition open_admin_panel :: "app \<Rightarrow> disk \<Rightarrow> (error + unit) \<times> app" where
  "open_admin_panel a d =
     (case load_orders d of
        Inl e \<Rightarrow> (Inl e, a)
      | Inr os \<Rightarrow> (Inr (), a\<lparr>orders := os\<rparr>))"

definition open_admin_login :: "pystr option \<Rightarrow> app \<Rightarrow> disk \<Rightarrow> (error + login) \<times> app" where
  "open_admin_login pw_in a d =
     (case pw_in of
        None \<Rightarrow> (Inr LoginCancelled, a)
      | Some pw \<Rightarrow>
          (case authenticate (config a) pw of
             Inl e \<Rightarrow> (Inl e, a)
           | Inr ok \<Rightarrow>
               (if ok
                then (case open_admin_panel a d of
                        (Inl e, a1) \<Rightarrow> (Inl e, a1)
                      | (Inr u, a1) \<Rightarrow> (Inr AccessGranted, a1))
                else (Inr AccessDenied, a))))"

text \<open>
  \<^verbatim>\<open>BazaarApp._admin_change_password\<close>; \<open>new_in\<close> and \<open>confirm_in\<close> are the answers of the
  two dialogs. The second dialog is only reached with a non-empty first answer. The digest
  is computed before \<^verbatim>\<open>self.config\<close> is assigned to.
\<close>

definition admin_change_password ::
  "io \<Rightarrow> pystr option \<Rightarrow> pystr option \<Rightarrow> app \<Rightarrow> disk \<Rightarrow> (error + unit) \<times> app \<times> disk" where
  "admin_change_password io new_in confirm_in a d =
     (case new_in of
        None \<Rightarrow> (Inl EmptyPasswordError, a, d)
      | Some new_pw \<Rightarrow>
          (if new_pw = [] then (Inl EmptyPasswordError, a, d)
           else if Some new_pw \<noteq> confirm_in then (Inl MismatchError, a, d)
           else
             (case hash_password new_pw of
                Inl e \<Rightarrow> (Inl e, a, d)
              | Inr h \<Rightarrow>
                  (let a1 = a\<lparr>config := AList.update PASSWORD_KEY h (config a)\<rparr>
                   in (case save_config io (config a1) d of (r, d1) \<Rightarrow> (r, a1, d1))))))"

section \<open>Reference values and example states\<close>






text \<open>The credential object of the first run.\<close>

definition default_cfg :: config where
  "default_cfg = [(PASSWORD_KEY, sha256_hexdigest (ascii_bytes ''admin123''))]"

text \<open>The disk before the first run, a disk on which every write succeeds, and the
  application as the first run leaves it.\<close>

definition fresh_disk :: disk where
  "fresh_disk = \<lparr>menu_file = Missing, orders_file = Missing, config_file = Missing\<rparr>"

definition io_ok :: io where
  "io_ok = (\<lambda>f. Succeeds)"

definition seeded_disk :: disk where
  "seeded_disk = \<lparr>menu_file = Parsed sample_menu, orders_file = Parsed [], config_file = Parsed default_cfg\<rparr>"

definition seeded_app :: app where
  "seeded_app = \<lparr>menu_items = sample_menu, orders = [], config = default_cfg, cart = []\<rparr>"

section \<open>Auxiliary facts\<close>

lemma length_hex32: "length (hex32 w) = 8"
  by (simp add: hex32_def)

lemma length_hexdigest: "length (hexdigest st) = 64"
  by (cases st rule: hexdigest.cases) (simp add: length_hex32)

lemma length_sha256_hexdigest: "length (sha256_hexdigest bs) = 64"
  by (simp add: sha256_hexdigest_def length_hexdigest)

lemma sha256_hexdigest_not_empty: "sha256_hexdigest bs \<noteq> ''''"
proof
  assume "sha256_hexdigest bs = ''''"
  then have "length (sha256_hexdigest bs) = 0" by simp
  then show False by (simp add: length_sha256_hexdigest)
qed

lemma encode_default_pw: "encode default_pw = Inr (ascii_bytes ''admin123'')"
  by (simp add: default_pw_def py_str_def utf8_def ascii_bytes_def)



lemma order_note_make_order:
  "order_note (make_order now buyer note menu c) = note_or_empty note"
  by (simp add: make_order_def split: prod.splits)

lemma save_orders_ok:
  "io ORDERS_FILE = Succeeds \<Longrightarrow> save_orders io os d = (Inr (), d\<lparr>orders_file := Parsed os\<rparr>)"
  by (simp add: save_orders_def write_json_def)

lemma save_orders_fails:
  "io ORDERS_FILE \<noteq> Succeeds \<Longrightarrow>
   save_orders io os d =
     (Inl StorageError, d\<lparr>orders_file := (if io ORDERS_FILE = FailsAtOpen then orders_file d else Garbled)\<rparr>)"
  by (cases "io ORDERS_FILE") (simp_all add: save_orders_def write_json_def)

lemma place_order_accepted:
  "cart a \<noteq> [] \<Longrightarrow> buyer \<noteq> '''' \<Longrightarrow> io ORDERS_FILE = Succeeds \<Longrightarrow>
   place_order io now (Some buyer) note a d =
     (Inr (make_order now buyer note (menu_items a) (cart a)),
      a\<lparr>orders := orders a @ [make_order now buyer note (menu_items a) (cart a)], cart := []\<rparr>,
      d\<lparr>orders_file := Parsed (orders a @ [make_order now buyer note (menu_items a) (cart a)])\<rparr>)"
  by (simp add: place_order_def Let_def save_orders_ok)

lemma place_order_unsaved:
  "cart a \<noteq> [] \<Longrightarrow> buyer \<noteq> '''' \<Longrightarrow> io ORDERS_FILE \<noteq> Succeeds \<Longrightarrow>
   place_order io now (Some buyer) note a d =
     (Inl StorageError,
      a\<lparr>orders := orders a @ [make_order now buyer note (menu_items a) (cart a)]\<rparr>,
      d\<lparr>orders_file := (if io ORDERS_FILE = FailsAtOpen then orders_file d else Garbled)\<rparr>)"
  by (simp add: place_order_def Let_def save_orders_fails)




lemma ensure_files_exist_fresh: "ensure_files_exist io_ok fresh_disk = (Inr (), seeded_disk)"
  by (simp add: ensure_files_exist_def io_ok_def fresh_disk_def seeded_disk_def exists_file_def
      write_json_def encode_default_pw default_cfg_def)

lemma init_app_fresh: "init_app io_ok fresh_disk = (Inr seeded_app, seeded_disk)"
  by (simp add: init_app_def ensure_files_exist_fresh load_menu_def load_orders_def
      load_config_def read_json_def seeded_disk_def seeded_app_def)

lemma map_of_default_cfg:
  "map_of default_cfg PASSWORD_KEY = Some (sha256_hexdigest (ascii_bytes ''admin123''))"
  by (simp add: default_cfg_def)

section \<open>Order recorder: claims\<close>



text \<open>
  C2, as the program has it. For a non-empty cart, \<open>place_order\<close> with a cancelled or empty
  buyer name fails with \<open>MissingBuyerError\<close> and leaves the order log in memory and on disk
  as they were. The name is not trimmed: a name of blanks is accepted.
\<close>

theorem place_order_missing_buyer:
  assumes "cart a \<noteq> []"
    and "buyer_in = None \<or> buyer_in = Some ''''"
  shows "place_order io now buyer_in note a d = (Inl MissingBuyerError, a, d)"
  using assms by (auto simp: place_order_def)

theorem place_order_missing_buyer_witness:
  "cart (seeded_app\<lparr>cart := [(1, 2)]\<rparr>) \<noteq> [] \<and>
   place_order io_ok ''2024-01-01T00:00:00'' (Some '''') None (seeded_app\<lparr>cart := [(1, 2)]\<rparr>) seeded_disk
     = (Inl MissingBuyerError, seeded_app\<lparr>cart := [(1, 2)]\<rparr>, seeded_disk) \<and>
   place_order io_ok ''2024-01-01T00:00:00'' None None (seeded_app\<lparr>cart := [(1, 2)]\<rparr>) seeded_disk
     = (Inl MissingBuyerError, seeded_app\<lparr>cart := [(1, 2)]\<rparr>, seeded_disk)"
  using place_order_missing_buyer [of "seeded_app\<lparr>cart := [(1, 2)]\<rparr>" "Some ''''" io_ok
      "''2024-01-01T00:00:00''" None seeded_disk]
    place_order_missing_buyer [of "seeded_app\<lparr>cart := [(1, 2)]\<rparr>" None io_ok
      "''2024-01-01T00:00:00''" None seeded_disk]
  by (simp add: seeded_app_def)

text \<open>
  C2 as stated fails: with the buyer name of two blanks the order is accepted, appended to the
  log and written to disk.
\<close>

theorem place_order_blank_buyer_counterexample:
  "fst (place_order io_ok ''2024-01-01T00:00:00'' (Some ''  '') None
          (seeded_app\<lparr>cart := [(1, 2)]\<rparr>) seeded_disk) \<noteq> Inl MissingBuyerError \<and>
   length (orders (fst (snd (place_order io_ok ''2024-01-01T00:00:00'' (Some ''  '') None
          (seeded_app\<lparr>cart := [(1, 2)]\<rparr>) seeded_disk)))) = 1 \<and>
   orders_file (snd (snd (place_order io_ok ''2024-01-01T00:00:00'' (Some ''  '') None
          (seeded_app\<lparr>cart := [(1, 2)]\<rparr>) seeded_disk))) \<noteq> orders_file seeded_disk"
  by (simp add: place_order_accepted seeded_app_def io_ok_def seeded_disk_def)

text \<open>
  C4, as the program has it. When the write of the order log fails, \<open>place_order\<close> ends with
  the storage failure, the order log in memory is the log before the call followed by the new
  record, and the cart is kept. Nothing is rolled back.
\<close>

theorem place_order_persist_failure:
  assumes "cart a \<noteq> []"
    and "buyer \<noteq> ''''"
    and "io ORDERS_FILE \<noteq> Succeeds"
  shows "\<exists>a' d'.
      place_order io now (Some buyer) note a d = (Inl StorageError, a', d') \<and>
      orders a' = orders a @ [make_order now buyer note (menu_items a) (cart a)] \<and>
      cart a' = cart a"
  using assms by (simp add: place_order_unsaved)

theorem place_order_persist_failure_witness:
  "cart (seeded_app\<lparr>cart := [(1, 2)]\<rparr>) \<noteq> [] \<and>
   (\<exists>a' d'.
      place_order (\<lambda>f. FailsAtOpen) ''2024-01-01T00:00:00'' (Some ''Ani'') None
        (seeded_app\<lparr>cart := [(1, 2)]\<rparr>) seeded_disk = (Inl StorageError, a', d') \<and>
      length (orders a') = 1 \<and> cart a' = [(1, 2)])"
  using place_order_persist_failure [of "seeded_app\<lparr>cart := [(1, 2)]\<rparr>" "''Ani''"
      "\<lambda>f. FailsAtOpen" "''2024-01-01T00:00:00''" None seeded_disk]
  by (auto simp: seeded_app_def)

text \<open>
  C4 as stated fails: after a failed write the order log in memory differs from the log
  before the call, while the document on disk is the one before the call.
\<close>

theorem place_order_no_rollback_counterexample:
  "fst (place_order (\<lambda>f. FailsAtOpen) ''2024-01-01T00:00:00'' (Some ''Ani'') None
          (seeded_app\<lparr>cart := [(1, 2)]\<rparr>) seeded_disk) = Inl StorageError \<and>
   orders (fst (snd (place_order (\<lambda>f. FailsAtOpen) ''2024-01-01T00:00:00'' (Some ''Ani'') None
          (seeded_app\<lparr>cart := [(1, 2)]\<rparr>) seeded_disk))) \<noteq> orders (seeded_app\<lparr>cart := [(1, 2)]\<rparr>) \<and>
   snd (snd (place_order (\<lambda>f. FailsAtOpen) ''2024-01-01T00:00:00'' (Some ''Ani'') None
          (seeded_app\<lparr>cart := [(1, 2)]\<rparr>) seeded_disk)) = seeded_disk"
  by (simp add: place_order_unsaved seeded_app_def seeded_disk_def)

text \<open>
  C6. On an empty cart \<open>place_order\<close> fails with \<open>EmptyCartError\<close>, whatever the dialogs
  would answer, and the order log in memory and the documents on disk are unchanged.
\<close>

theorem place_order_empty_cart:
  assumes "cart a = []"
  shows "place_order io now buyer_in note a d = (Inl EmptyCartError, a, d)"
  using assms by (simp add: place_order_def)

theorem place_order_empty_cart_witness:
  "cart seeded_app = [] \<and>
   place_order io_ok ''2024-01-01T00:00:00'' (Some ''Ani'') None seeded_app seeded_disk
     = (Inl EmptyCartError, seeded_app, seeded_disk)"
  using place_order_empty_cart [of seeded_app io_ok "''2024-01-01T00:00:00''" "Some ''Ani''" None seeded_disk]
  by (simp add: seeded_app_def)

text \<open>
  C10. Whenever \<open>place_order\<close> builds a record (non-empty cart, non-empty buyer name), the
  record appended to the order log carries as its note the answer of the note dialog, and
  the empty string when that dialog was cancelled; this holds whether or not the write
  succeeds, and the record written to disk is the same record.
\<close>

theorem place_order_note_string:
  assumes "cart a \<noteq> []"
    and "buyer \<noteq> ''''"
  shows "\<exists>r a' d' ord.
      place_order io now (Some buyer) note a d = (r, a', d') \<and>
      orders a' = orders a @ [ord] \<and>
      order_note ord = (case note of None \<Rightarrow> '''' | Some s \<Rightarrow> s) \<and>
      (note = None \<longrightarrow> order_note ord = '''') \<and>
      (io ORDERS_FILE = Succeeds \<longrightarrow> r = Inr ord \<and> orders_file d' = Parsed (orders a @ [ord]))"
proof (cases "io ORDERS_FILE = Succeeds")
  case True
  with assms show ?thesis
    by (simp add: place_order_accepted order_note_make_order note_or_empty_def split: option.splits)
next
  case False
  with assms show ?thesis
    by (simp add: place_order_unsaved order_note_make_order note_or_empty_def split: option.splits)
qed

theorem place_order_note_string_witness:
  "cart (seeded_app\<lparr>cart := [(1, 2)]\<rparr>) \<noteq> [] \<and>
   (\<exists>r a' d' ord.
      place_order io_ok ''2024-01-01T00:00:00'' (Some ''Ani'') None
        (seeded_app\<lparr>cart := [(1, 2)]\<rparr>) seeded_disk = (r, a', d') \<and>
      orders a' = [ord] \<and> order_note ord = '''' \<and> r = Inr ord \<and> orders_file d' = Parsed [ord])"
  using place_order_note_string [of "seeded_app\<lparr>cart := [(1, 2)]\<rparr>" "''Ani''" io_ok
      "''2024-01-01T00:00:00''" None seeded_disk]
  by (auto simp: seeded_app_def io_ok_def)

section \<open>Digests of two passwords\<close>

text \<open>The two digests agree with what \<^verbatim>\<open>hashlib\<close> prints for these inputs.\<close>

lemma sha256_admin123:
  "sha256_hexdigest (ascii_bytes ''admin123'') =
     ''240be518fabd2724ddb6f04eeb1da5967448d7e831c08c8fa822809f74c720a9''"
  by code_simp

lemma sha256_secret:
  "sha256_hexdigest (ascii_bytes ''secret'') =
     ''2bb80d537b1da3e38bd30361aa855686bde0eacd7162fef6a25fe97bf527a25b''"
  by code_simp

lemma encode_admin123: "encode (py_str ''admin123'') = Inr (ascii_bytes ''admin123'')"
  by (simp add: py_str_def utf8_def ascii_bytes_def)

lemma encode_secret: "encode (py_str ''secret'') = Inr (ascii_bytes ''secret'')"
  by (simp add: py_str_def utf8_def ascii_bytes_def)

lemma hash_password_admin123:
  "hash_password (py_str ''admin123'') =
     Inr ''240be518fabd2724ddb6f04eeb1da5967448d7e831c08c8fa822809f74c720a9''"
  by (simp only: hash_password_def encode_admin123 sha256_admin123 sum.case)

lemma digests_differ:
  "sha256_hexdigest (ascii_bytes ''admin123'') \<noteq> sha256_hexdigest (ascii_bytes ''secret'')"
  by (simp add: sha256_admin123 sha256_secret)

lemma default_cfg_digest:
  "default_cfg =
     [(''admin_password_sha256'',
       ''240be518fabd2724ddb6f04eeb1da5967448d7e831c08c8fa822809f74c720a9'')]"
  by (simp only: default_cfg_def PASSWORD_KEY_def sha256_admin123)

text \<open>A \<^verbatim>\<open>str\<close> of one lone surrogate, \<^verbatim>\<open>"\ud800"\<close>, has no encoding.\<close>

lemma encode_lone_surrogate: "encode [0xD800] = Inl UnicodeEncodeError"
  by (simp add: utf8_def)

lemma hash_password_lone_surrogate: "hash_password [0xD800] = Inl UnicodeEncodeError"
  by (simp add: hash_password_def utf8_def)

lemma save_config_ok:
  "io CONFIG_FILE = Succeeds \<Longrightarrow> save_config io cfg d = (Inr (), d\<lparr>config_file := Parsed cfg\<rparr>)"
  by (simp add: save_config_def write_json_def)

lemma dict_get_update: "dict_get (AList.update k v cfg) k dflt = v"
  by (simp add: dict_get_def update_conv')

lemma authenticate_encoded:
  "encode pw = Inr bs \<Longrightarrow>
   authenticate cfg pw = Inr (sha256_hexdigest bs = dict_get cfg PASSWORD_KEY '''')"
  by (simp add: authenticate_def hash_password_def)

lemma open_admin_login_config: "config (snd (open_admin_login pw_in a d)) = config a"
  by (simp add: open_admin_login_def open_admin_panel_def split: option.splits sum.splits)

lemma open_admin_login_denied:
  "authenticate (config a) pw = Inr False \<Longrightarrow>
   open_admin_login (Some pw) a d = (Inr AccessDenied, a)"
  by (simp add: open_admin_login_def)

lemma open_admin_login_granted:
  "authenticate (config a) pw = Inr True \<Longrightarrow> orders_file d = Parsed os \<Longrightarrow>
   open_admin_login (Some pw) a d = (Inr AccessGranted, a\<lparr>orders := os\<rparr>)"
  by (simp add: open_admin_login_def open_admin_panel_def load_orders_def read_json_def)

lemma open_admin_login_raises:
  "authenticate (config a) pw = Inl e \<Longrightarrow> open_admin_login (Some pw) a d = (Inl e, a)"
  by (simp add: open_admin_login_def)

section \<open>Persistent store and admin gate: claims\<close>

text \<open>
  C3, as the program has it. When the credential document is absent and the writes of the
  missing documents succeed, \<open>ensure_files_exist\<close> creates a credential document whose field
  named \<open>admin_password_sha256\<close> holds the SHA-256 hex digest of \<open>admin123\<close>, and the load
  that follows returns it.
\<close>

theorem ensure_files_exist_default_hash:
  assumes "config_file d = Missing"
    and "io CONFIG_FILE = Succeeds"
    and "menu_file d = Missing \<longrightarrow> io MENU_FILE = Succeeds"
    and "orders_file d = Missing \<longrightarrow> io ORDERS_FILE = Succeeds"
  shows "\<exists>d' h.
      ensure_files_exist io d = (Inr (), d') \<and>
      hash_password (py_str ''admin123'') = Inr h \<and>
      h = ''240be518fabd2724ddb6f04eeb1da5967448d7e831c08c8fa822809f74c720a9'' \<and>
      config_file d' = Parsed [(''admin_password_sha256'', h)] \<and>
      load_config d' = Inr [(''admin_password_sha256'', h)]"
proof -
  note defs = ensure_files_exist_def exists_file_def write_json_def load_config_def
    read_json_def encode_default_pw sha256_admin123 hash_password_admin123 PASSWORD_KEY_def
  show ?thesis
  proof (cases "menu_file d")
    case Missing
    with assms show ?thesis
      by (cases "orders_file d") (simp_all add: defs)
  next
    case (Parsed m)
    with assms show ?thesis
      by (cases "orders_file d") (simp_all add: defs)
  next
    case Garbled
    with assms show ?thesis
      by (cases "orders_file d") (simp_all add: defs)
  qed
qed

theorem ensure_files_exist_default_hash_witness:
  "config_file fresh_disk = Missing \<and>
   (\<exists>d' h. ensure_files_exist io_ok fresh_disk = (Inr (), d') \<and>
      hash_password (py_str ''admin123'') = Inr h \<and>
      h = ''240be518fabd2724ddb6f04eeb1da5967448d7e831c08c8fa822809f74c720a9'' \<and>
      config_file d' = Parsed [(''admin_password_sha256'', h)] \<and>
      load_config d' = Inr [(''admin_password_sha256'', h)])"
  using ensure_files_exist_default_hash [of fresh_disk io_ok]
  by (simp add: fresh_disk_def io_ok_def)

text \<open>
  C3 as stated fails: the document created on the first run has no field named
  \<open>admin_password_hash\<close>.
\<close>

theorem credential_field_name_counterexample:
  "config_file (snd (ensure_files_exist io_ok fresh_disk)) = Parsed default_cfg \<and>
   map_of default_cfg ''admin_password_hash'' = None \<and>
   map_of default_cfg ''admin_password_sha256'' =
     Some ''240be518fabd2724ddb6f04eeb1da5967448d7e831c08c8fa822809f74c720a9''"
  by (simp add: ensure_files_exist_fresh seeded_disk_def default_cfg_digest)

text \<open>
  C5, as the program has it. With a stored hash \<open>h\<close> and an input that UTF-8 can encode,
  \<open>authenticate\<close> is true exactly when the SHA-256 hex digest of the input equals \<open>h\<close>; on
  any other such input the login ends with the refusal and no exception; and the credential
  held by the application is the same afterwards in every case (the login takes the disk as
  an input only, so the document on disk is untouched).
\<close>

theorem authenticate_exact:
  assumes "map_of (config a) PASSWORD_KEY = Some h"
    and "encode pw = Inr bs"
  shows "authenticate (config a) pw = Inr (sha256_hexdigest bs = h) \<and>
      (sha256_hexdigest bs \<noteq> h \<longrightarrow> open_admin_login (Some pw) a d = (Inr AccessDenied, a)) \<and>
      config (snd (open_admin_login (Some pw) a d)) = config a"
proof -
  from assms have auth: "authenticate (config a) pw = Inr (sha256_hexdigest bs = h)"
    by (simp add: authenticate_encoded dict_get_def)
  then have "sha256_hexdigest bs \<noteq> h \<longrightarrow> open_admin_login (Some pw) a d = (Inr AccessDenied, a)"
    by (simp add: open_admin_login_denied)
  with auth show ?thesis
    by (simp add: open_admin_login_config)
qed

theorem authenticate_exact_witness:
  "map_of (config seeded_app) PASSWORD_KEY
     = Some ''240be518fabd2724ddb6f04eeb1da5967448d7e831c08c8fa822809f74c720a9'' \<and>
   encode (py_str ''admin123'') = Inr (ascii_bytes ''admin123'') \<and>
   encode (py_str ''secret'') = Inr (ascii_bytes ''secret'') \<and>
   authenticate (config seeded_app) (py_str ''admin123'') = Inr True \<and>
   authenticate (config seeded_app) (py_str ''secret'') = Inr False \<and>
   open_admin_login (Some (py_str ''secret'')) seeded_app seeded_disk = (Inr AccessDenied, seeded_app) \<and>
   config (snd (open_admin_login (Some (py_str ''admin123'')) seeded_app seeded_disk)) = config seeded_app"
proof -
  have stored: "map_of (config seeded_app) PASSWORD_KEY
      = Some ''240be518fabd2724ddb6f04eeb1da5967448d7e831c08c8fa822809f74c720a9''"
    by (simp add: seeded_app_def default_cfg_digest PASSWORD_KEY_def)
  from authenticate_exact [OF stored encode_admin123, of seeded_disk]
    authenticate_exact [OF stored encode_secret, of seeded_disk]
    stored encode_admin123 encode_secret
  show ?thesis
    by (simp add: sha256_admin123 sha256_secret)
qed

text \<open>
  C5 as stated fails: on the input of one lone surrogate the login ends with
  \<open>UnicodeEncodeError\<close>, not with a refusal.
\<close>

theorem authenticate_unencodable_counterexample:
  "authenticate (config seeded_app) [0xD800] = Inl UnicodeEncodeError \<and>
   open_admin_login (Some [0xD800]) seeded_app seeded_disk = (Inl UnicodeEncodeError, seeded_app)"
  by (simp add: authenticate_def hash_password_lone_surrogate open_admin_login_def)

text \<open>
  C7, as the program has it. For a non-empty \<open>p\<close> and a confirmation that differs from it
  (another string, or a cancelled dialog), the password change fails with \<open>MismatchError\<close>
  and the credential in memory and on disk is unchanged. An empty \<open>p\<close> is refused before
  the confirmation is asked for, with \<open>EmptyPasswordError\<close>, and the credential is
  unchanged as well.
\<close>

theorem change_password_mismatch:
  assumes "Some p \<noteq> confirm_in"
  shows "(p \<noteq> [] \<longrightarrow>
        admin_change_password io (Some p) confirm_in a d = (Inl MismatchError, a, d)) \<and>
      (p = [] \<longrightarrow>
        admin_change_password io (Some p) confirm_in a d = (Inl EmptyPasswordError, a, d))"
  using assms by (simp add: admin_change_password_def)

theorem change_password_mismatch_witness:
  "Some (py_str ''secret'') \<noteq> Some (py_str ''secrex'') \<and>
   admin_change_password io_ok (Some (py_str ''secret'')) (Some (py_str ''secrex'')) seeded_app seeded_disk
     = (Inl MismatchError, seeded_app, seeded_disk) \<and>
   admin_change_password io_ok (Some []) (Some (py_str ''secrex'')) seeded_app seeded_disk
     = (Inl EmptyPasswordError, seeded_app, seeded_disk)"
  using change_password_mismatch [of "py_str ''secret''" "Some (py_str ''secrex'')" io_ok seeded_app seeded_disk]
    change_password_mismatch [of "[]" "Some (py_str ''secrex'')" io_ok seeded_app seeded_disk]
  by (simp add: py_str_def)

text \<open>
  C7 as stated fails at \<open>p\<close> empty and \<open>q\<close> not: the outcome is not \<open>MismatchError\<close>.
\<close>

theorem change_password_empty_counterexample:
  "[] \<noteq> py_str ''x'' \<and>
   fst (admin_change_password io_ok (Some []) (Some (py_str ''x'')) seeded_app seeded_disk)
     \<noteq> Inl MismatchError"
  by (simp add: admin_change_password_def py_str_def)

text \<open>
  C8, as the program has it. For a non-empty \<open>p\<close> that UTF-8 can encode and a write of the
  credential document that succeeds, the password change with \<open>p\<close> given twice succeeds;
  afterwards \<open>authenticate\<close> accepts \<open>p\<close>, the document on disk is the credential held in
  memory, and every password whose digest differs from that of \<open>p\<close> is refused, the
  previously valid one among them.
\<close>

theorem change_password_then_authenticate:
  assumes "p \<noteq> []"
    and "encode p = Inr bs"
    and "io CONFIG_FILE = Succeeds"
  shows "\<exists>a' d'.
      admin_change_password io (Some p) (Some p) a d = (Inr (), a', d') \<and>
      authenticate (config a') p = Inr True \<and>
      config_file d' = Parsed (config a') \<and>
      (\<forall>old obs. encode old = Inr obs \<and> sha256_hexdigest obs \<noteq> sha256_hexdigest bs
         \<longrightarrow> authenticate (config a') old = Inr False)"
  using assms
  by (simp add: admin_change_password_def hash_password_def Let_def save_config_ok
      authenticate_encoded dict_get_update)

theorem change_password_then_authenticate_witness:
  "py_str ''secret'' \<noteq> [] \<and>
   encode (py_str ''secret'') = Inr (ascii_bytes ''secret'') \<and>
   authenticate (config seeded_app) (py_str ''admin123'') = Inr True \<and>
   sha256_hexdigest (ascii_bytes ''admin123'') \<noteq> sha256_hexdigest (ascii_bytes ''secret'') \<and>
   (\<exists>a' d'.
      admin_change_password io_ok (Some (py_str ''secret'')) (Some (py_str ''secret''))
        seeded_app seeded_disk = (Inr (), a', d') \<and>
      authenticate (config a') (py_str ''secret'') = Inr True \<and>
      authenticate (config a') (py_str ''admin123'') = Inr False)"
proof -
  have ne: "py_str ''secret'' \<noteq> []"
    by (simp add: py_str_def)
  have old: "authenticate (config seeded_app) (py_str ''admin123'') = Inr True"
    by (simp add: authenticate_encoded [OF encode_admin123] dict_get_def seeded_app_def
        default_cfg_def)
  have ok: "io_ok CONFIG_FILE = Succeeds"
    by (simp add: io_ok_def)
  from change_password_then_authenticate [where p = "py_str ''secret''"
      and bs = "ascii_bytes ''secret''" and io = io_ok and a = seeded_app and d = seeded_disk]
    ne encode_secret ok
  obtain a' d' where
    r: "admin_change_password io_ok (Some (py_str ''secret'')) (Some (py_str ''secret''))
          seeded_app seeded_disk = (Inr (), a', d')"
    and new: "authenticate (config a') (py_str ''secret'') = Inr True"
    and others: "\<forall>old obs. encode old = Inr obs \<and>
        sha256_hexdigest obs \<noteq> sha256_hexdigest (ascii_bytes ''secret'')
        \<longrightarrow> authenticate (config a') old = Inr False"
    by blast
  from others encode_admin123 digests_differ
  have "authenticate (config a') (py_str ''admin123'') = Inr False"
    by blast
  with r new old ne encode_secret digests_differ show ?thesis
    by blast
qed

text \<open>
  C8 as stated fails: the non-empty password of one lone surrogate, given twice, ends the
  change with \<open>UnicodeEncodeError\<close>, and the credential is the one before.
\<close>

theorem change_password_unencodable_counterexample:
  "[0xD800] \<noteq> ([] :: pystr) \<and>
   admin_change_password io_ok (Some [0xD800]) (Some [0xD800]) seeded_app seeded_disk
     = (Inl UnicodeEncodeError, seeded_app, seeded_disk)"
  by (simp add: admin_change_password_def hash_password_lone_surrogate)

text \<open>
  C9, as the program has it. When the credential object has no entry under the key the
  program reads, \<open>authenticate\<close> is false for every input that UTF-8 can encode and the login
  ends with the refusal, not with an exception: the comparison is against the empty string,
  and a digest has 64 characters.
\<close>

theorem authenticate_without_key:
  assumes "map_of (config a) PASSWORD_KEY = None"
    and "encode pw = Inr bs"
  shows "authenticate (config a) pw = Inr False \<and>
      length (sha256_hexdigest bs) = 64 \<and>
      open_admin_login (Some pw) a d = (Inr AccessDenied, a)"
proof -
  from assms have "authenticate (config a) pw = Inr False"
    by (simp add: authenticate_encoded dict_get_def sha256_hexdigest_not_empty)
  then show ?thesis
    by (simp add: open_admin_login_denied length_sha256_hexdigest)
qed

theorem authenticate_without_key_witness:
  "map_of (config (seeded_app\<lparr>config := []\<rparr>)) PASSWORD_KEY = None \<and>
   encode (py_str ''admin123'') = Inr (ascii_bytes ''admin123'') \<and>
   authenticate (config (seeded_app\<lparr>config := []\<rparr>)) (py_str ''admin123'') = Inr False \<and>
   open_admin_login (Some (py_str ''admin123'')) (seeded_app\<lparr>config := []\<rparr>) seeded_disk
     = (Inr AccessDenied, seeded_app\<lparr>config := []\<rparr>)"
  using authenticate_without_key [of "seeded_app\<lparr>config := []\<rparr>" "py_str ''admin123''"
      "ascii_bytes ''admin123''" seeded_disk] encode_admin123
  by simp

text \<open>
  C9 as stated fails: with no entry under the key, the input of one lone surrogate ends the
  login with \<open>UnicodeEncodeError\<close>.
\<close>

theorem authenticate_without_key_counterexample:
  "map_of (config (seeded_app\<lparr>config := []\<rparr>)) PASSWORD_KEY = None \<and>
   authenticate (config (seeded_app\<lparr>config := []\<rparr>)) [0xD800] = Inl UnicodeEncodeError \<and>
   fst (open_admin_login (Some [0xD800]) (seeded_app\<lparr>config := []\<rparr>) seeded_disk)
     = Inl UnicodeEncodeError"
  by (simp add: authenticate_def hash_password_lone_surrogate open_admin_login_def)

end
